theory Spec2Isabelle
  imports Main "HOL-Library.Word"
begin

section \<open>The collaborators at the boundary of stepper.h\<close>

text \<open>
  Everything a driver does is a call on a collaborator: a digital output, an endstop,
  the console, the delay routine or the TMC2130 chip handle. Each call is recorded, in
  program order, as one event of the world's trace, so that "exactly one pulse" or
  "the wait comes before the write" are statements about a list.
\<close>

datatype reg = GCONF | CHOPCONF | COOLCONF | PWMCONF | TCOOLTHRS | TPWMTHRS

datatype setting =
    I_scale_analog bool
  | Interpolate bool
  | Internal_Rsense bool
  | Sgt "8 word"
  | Diag1_stall bool
  | Microsteps "16 word"
  | Rms_current "16 word"

datatype event =
    StepOn | StepOff | DirSet bool | EnableOn | EnableOff
  | Polled nat
  | Printed string | PrintedLn string | PrintedValue string "8 word"
  | Delayed nat
  | Begun | TestedConnection | AskedVersion | AskedStst
  | RegRead reg | RegWrite reg "32 word" | Configured setting

text \<open>
  Modelled from the spec: stepper.h only declares \<open>class EndstopDriver\<close>; section 6 of
  the specification gives \<open>update() -> triggered:boolean\<close>, polled synchronously, the
  triggering semantics owned by the collaborator. So an endstop is any source of
  readings: \<open>signal e k\<close> is what the k-th call of \<open>update()\<close> returns, \<open>polls e\<close>
  counts the calls made so far.
\<close>

record EndstopDriver =
  signal :: "nat \<Rightarrow> bool"
  polls :: nat

text \<open>
  The world: the trace, the level of the three pins bound to \<open>stepCls\<close>, \<open>dirCls\<close> and
  \<open>enableCls\<close>, and the store of endstop objects, addressed as the \<open>EndstopDriver*\<close>
  pointers address them (two pointers may hold the same address).
\<close>

record world =
  trace :: "event list"
  stepPin :: bool
  dirPin :: bool
  enablePin :: bool
  endstops :: "nat \<Rightarrow> EndstopDriver"

text \<open>
  Modelled from the spec: the pin classes bound to the template parameters, \<open>Com\<close> and
  \<open>HAL\<close> are not defined in stepper.h. By section 6, \<open>on()\<close> asserts and \<open>off()\<close>
  deasserts the one signal of a digital output, with effect before the call returns
  (\<open>dirCls::set(d)\<close> drives the signal to \<open>d\<close>); the console takes label and value
  pairs and returns nothing; the delay only takes time. Each call is recorded.
\<close>

definition emit :: "event \<Rightarrow> world \<Rightarrow> world" where
  "emit e w = w\<lparr>trace := trace w @ [e]\<rparr>"

definition stepCls_on :: "world \<Rightarrow> world" where
  "stepCls_on w = emit StepOn (w\<lparr>stepPin := True\<rparr>)"

definition stepCls_off :: "world \<Rightarrow> world" where
  "stepCls_off w = emit StepOff (w\<lparr>stepPin := False\<rparr>)"

definition dirCls_set :: "bool \<Rightarrow> world \<Rightarrow> world" where
  "dirCls_set d w = emit (DirSet d) (w\<lparr>dirPin := d\<rparr>)"

definition enableCls_on :: "world \<Rightarrow> world" where
  "enableCls_on w = emit EnableOn (w\<lparr>enablePin := True\<rparr>)"

definition enableCls_off :: "world \<Rightarrow> world" where
  "enableCls_off w = emit EnableOff (w\<lparr>enablePin := False\<rparr>)"

definition Com_printF :: "string \<Rightarrow> world \<Rightarrow> world" where
  "Com_printF msg w = emit (Printed msg) w"

definition Com_printFLN :: "string \<Rightarrow> world \<Rightarrow> world" where
  "Com_printFLN msg w = emit (PrintedLn msg) w"

definition Com_printFLN_value :: "string \<Rightarrow> 8 word \<Rightarrow> world \<Rightarrow> world" where
  "Com_printFLN_value msg v w = emit (PrintedValue msg v) w"

definition HAL_delayMicroseconds :: "nat \<Rightarrow> world \<Rightarrow> world" where
  "HAL_delayMicroseconds us w = emit (Delayed us) w"

definition EndstopDriver_update :: "nat \<Rightarrow> world \<Rightarrow> bool \<times> world" where
  "EndstopDriver_update p w =
     (let e = endstops w p
      in (signal e (polls e),
          emit (Polled p) (w\<lparr>endstops := (endstops w)(p := e\<lparr>polls := Suc (polls e)\<rparr>)\<rparr>)))"

subsection \<open>The TMC2130Stepper handle\<close>

text \<open>
  Modelled from the spec: the class \<open>TMC2130Stepper\<close> comes from the included library
  header and has no source in stepper.h. Section 6 of the specification gives its
  boundary: the getter of each of the six registers returns the current value, the
  setter takes a value and returns nothing; \<open>test_connection()\<close> returns a status code
  (0 = OK); \<open>version()\<close> returns an identifier; \<open>stst()\<close> is the standstill predicate.
  What the chip answers is not decided by the driver, so the handle carries it as data:
  \<open>connection c k\<close> is the code returned by the k-th connectivity test and
  \<open>standstill c k\<close> the answer to the k-th standstill query. What \<open>begin()\<close> and the
  field setters do to the register file is the library's business; the handle carries
  it as the functions \<open>begin_effect\<close> and \<open>setting_effect\<close>, about which nothing is
  assumed.
\<close>

record TMC2130Stepper =
  regs :: "reg \<Rightarrow> 32 word"
  begin_effect :: "(reg \<Rightarrow> 32 word) \<Rightarrow> reg \<Rightarrow> 32 word"
  setting_effect :: "setting \<Rightarrow> (reg \<Rightarrow> 32 word) \<Rightarrow> reg \<Rightarrow> 32 word"
  connection :: "nat \<Rightarrow> 8 word"
  tests :: nat
  standstill :: "nat \<Rightarrow> bool"
  queries :: nat
  version_id :: "8 word"

definition chip_begin :: "TMC2130Stepper \<Rightarrow> TMC2130Stepper" where
  "chip_begin c = c\<lparr>regs := begin_effect c (regs c)\<rparr>"

definition chip_test_connection :: "TMC2130Stepper \<Rightarrow> 8 word \<times> TMC2130Stepper" where
  "chip_test_connection c = (connection c (tests c), c\<lparr>tests := Suc (tests c)\<rparr>)"

definition chip_stst :: "TMC2130Stepper \<Rightarrow> bool \<times> TMC2130Stepper" where
  "chip_stst c = (standstill c (queries c), c\<lparr>queries := Suc (queries c)\<rparr>)"

definition chip_get :: "reg \<Rightarrow> TMC2130Stepper \<Rightarrow> 32 word" where
  "chip_get r c = regs c r"

definition chip_set :: "reg \<Rightarrow> 32 word \<Rightarrow> TMC2130Stepper \<Rightarrow> TMC2130Stepper" where
  "chip_set r v c = c\<lparr>regs := (regs c)(r := v)\<rparr>"

definition chip_configure :: "setting \<Rightarrow> TMC2130Stepper \<Rightarrow> TMC2130Stepper" where
  "chip_configure x c = c\<lparr>regs := setting_effect c x (regs c)\<rparr>"

section \<open>The driver classes\<close>

record StepperDriverBase =
  minEndstop :: nat
  maxEndstop :: nat
  direction :: bool

type_synonym SimpleStepperDriver = StepperDriverBase

record RegisterBackup =
  b_GCONF :: "32 word"
  b_CHOPCONF :: "32 word"
  b_COOLCONF :: "32 word"
  b_PWMCONF :: "32 word"
  b_TCOOLTHRS :: "32 word"
  b_TPWMTHRS :: "32 word"

record TMC2130StepperDriver = StepperDriverBase +
  driver :: TMC2130Stepper
  backup :: RegisterBackup

text \<open>
  A method runs on the pair of its object and the world and returns the pair it leaves.
\<close>

definition in_world :: "(world \<Rightarrow> world) \<Rightarrow> 'o \<times> world \<Rightarrow> 'o \<times> world" where
  "in_world f s = (fst s, f (snd s))"

subsection \<open>StepperDriverBase: the defaults\<close>

definition StepperDriverBase_init :: "'o \<times> world \<Rightarrow> bool \<times> ('o \<times> world)" where
  "StepperDriverBase_init s = (True, s)"

definition StepperDriverBase_implementSetMicrosteps :: bool where
  "StepperDriverBase_implementSetMicrosteps = False"

definition StepperDriverBase_implementSetMaxCurrent :: bool where
  "StepperDriverBase_implementSetMaxCurrent = False"

definition StepperDriverBase_setMicrosteps :: "16 word \<Rightarrow> 'o \<times> world \<Rightarrow> 'o \<times> world" where
  "StepperDriverBase_setMicrosteps n s = s"

definition StepperDriverBase_setMotorCurrent :: "16 word \<Rightarrow> 'o \<times> world \<Rightarrow> 'o \<times> world" where
  "StepperDriverBase_setMotorCurrent n s = s"

definition StepperDriverBase_setMotorCurrentPercent :: "8 word \<Rightarrow> 'o \<times> world \<Rightarrow> 'o \<times> world" where
  "StepperDriverBase_setMotorCurrentPercent n s = s"

definition StepperDriverBase_beforeHoming :: "'o \<times> world \<Rightarrow> 'o \<times> world" where
  "StepperDriverBase_beforeHoming s = s"

definition StepperDriverBase_afterHoming :: "'o \<times> world \<Rightarrow> 'o \<times> world" where
  "StepperDriverBase_afterHoming s = s"

subsection \<open>SimpleStepperDriver\<close>

definition Simple_stepCond ::
  "SimpleStepperDriver \<times> world \<Rightarrow> bool \<times> (SimpleStepperDriver \<times> world)" where
  "Simple_stepCond s =
     (if direction (fst s) then
        (case EndstopDriver_update (maxEndstop (fst s)) (snd s) of
           (triggered, w) \<Rightarrow>
             if \<not> triggered then (False, (fst s, stepCls_on w)) else (True, (fst s, w)))
      else
        (case EndstopDriver_update (minEndstop (fst s)) (snd s) of
           (triggered, w) \<Rightarrow>
             if \<not> triggered then (False, (fst s, stepCls_on w)) else (True, (fst s, w))))"

definition Simple_step :: "SimpleStepperDriver \<times> world \<Rightarrow> SimpleStepperDriver \<times> world" where
  "Simple_step s = in_world stepCls_on s"

definition Simple_unstep :: "SimpleStepperDriver \<times> world \<Rightarrow> SimpleStepperDriver \<times> world" where
  "Simple_unstep s = in_world stepCls_off s"

definition Simple_dir ::
  "bool \<Rightarrow> SimpleStepperDriver \<times> world \<Rightarrow> SimpleStepperDriver \<times> world" where
  "Simple_dir d s = ((fst s)\<lparr>direction := d\<rparr>, dirCls_set d (snd s))"

definition Simple_enable :: "SimpleStepperDriver \<times> world \<Rightarrow> SimpleStepperDriver \<times> world" where
  "Simple_enable s = in_world enableCls_on s"

definition Simple_disable :: "SimpleStepperDriver \<times> world \<Rightarrow> SimpleStepperDriver \<times> world" where
  "Simple_disable s = in_world enableCls_off s"

subsection \<open>TMC2130StepperDriver\<close>

type_synonym tmc = "TMC2130StepperDriver \<times> world"

text \<open>Calls on the member \<open>driver\<close>: the handle changes, the call is recorded.\<close>

definition driver_begin :: "tmc \<Rightarrow> tmc" where
  "driver_begin s = ((fst s)\<lparr>driver := chip_begin (driver (fst s))\<rparr>, emit Begun (snd s))"

definition driver_test_connection :: "tmc \<Rightarrow> 8 word \<times> tmc" where
  "driver_test_connection s =
     (case chip_test_connection (driver (fst s)) of
        (r, c) \<Rightarrow> (r, ((fst s)\<lparr>driver := c\<rparr>, emit TestedConnection (snd s))))"

definition driver_version :: "tmc \<Rightarrow> 8 word \<times> tmc" where
  "driver_version s = (version_id (driver (fst s)), in_world (emit AskedVersion) s)"

definition driver_stst :: "tmc \<Rightarrow> bool \<times> tmc" where
  "driver_stst s =
     (case chip_stst (driver (fst s)) of
        (r, c) \<Rightarrow> (r, ((fst s)\<lparr>driver := c\<rparr>, emit AskedStst (snd s))))"

definition driver_get :: "reg \<Rightarrow> tmc \<Rightarrow> 32 word \<times> tmc" where
  "driver_get r s = (chip_get r (driver (fst s)), in_world (emit (RegRead r)) s)"

definition driver_set :: "reg \<Rightarrow> 32 word \<Rightarrow> tmc \<Rightarrow> tmc" where
  "driver_set r v s =
     ((fst s)\<lparr>driver := chip_set r v (driver (fst s))\<rparr>, emit (RegWrite r v) (snd s))"

definition driver_configure :: "setting \<Rightarrow> tmc \<Rightarrow> tmc" where
  "driver_configure x s =
     ((fst s)\<lparr>driver := chip_configure x (driver (fst s))\<rparr>, emit (Configured x) (snd s))"

definition TMC2130_stepCond :: "tmc \<Rightarrow> bool \<times> tmc" where
  "TMC2130_stepCond s =
     (if direction (fst s) then
        (case EndstopDriver_update (maxEndstop (fst s)) (snd s) of
           (triggered, w) \<Rightarrow>
             if \<not> triggered then (False, (fst s, stepCls_on w)) else (True, (fst s, w)))
      else
        (case EndstopDriver_update (minEndstop (fst s)) (snd s) of
           (triggered, w) \<Rightarrow>
             if \<not> triggered then (False, (fst s, stepCls_on w)) else (True, (fst s, w))))"

definition TMC2130_step :: "tmc \<Rightarrow> tmc" where
  "TMC2130_step s = in_world stepCls_on s"

definition TMC2130_unstep :: "tmc \<Rightarrow> tmc" where
  "TMC2130_unstep s = in_world stepCls_off s"

definition TMC2130_dir :: "bool \<Rightarrow> tmc \<Rightarrow> tmc" where
  "TMC2130_dir d s = ((fst s)\<lparr>direction := d\<rparr>, dirCls_set d (snd s))"

definition TMC2130_enable :: "tmc \<Rightarrow> tmc" where
  "TMC2130_enable s = in_world enableCls_on s"

definition TMC2130_disable :: "tmc \<Rightarrow> tmc" where
  "TMC2130_disable s = in_world enableCls_off s"

text \<open>
  The macro \<open>WAIT_UNTIL(condition, timeout)\<close>, with \<open>driver.stst()\<close> for the condition as
  \<open>TRINAMIC_WAIT_FOR_STANDSTILL\<close> passes it. The loop test is the source's
  \<open>!condition || count < (timeout * 1000 / TRINAMIC_WAIT_RESOLUTION_uS)\<close>: the condition
  is evaluated (one query of the chip) at every test, \<open>count\<close> is a \<open>uint16_t\<close> and wraps,
  the bound is computed on \<open>int\<close> (taken wide enough for \<open>timeout * 1000\<close>, as a 32-bit
  \<open>int\<close> is for the only argument the source passes, 100; 1000 is a multiple of 100, so
  the division is exact and has no rounding to model). A loop that
  never leaves has the value \<open>None\<close>.
\<close>

definition TRINAMIC_WAIT_RESOLUTION_uS :: nat where
  "TRINAMIC_WAIT_RESOLUTION_uS = 100"

partial_function (option) WAIT_UNTIL :: "int \<Rightarrow> 16 word \<Rightarrow> tmc \<Rightarrow> tmc option" where
  "WAIT_UNTIL timeout count s =
     (let q = driver_stst s in
      if \<not> fst q \<or> uint count < timeout * 1000 div int TRINAMIC_WAIT_RESOLUTION_uS
      then WAIT_UNTIL timeout (count + 1)
             (in_world (HAL_delayMicroseconds TRINAMIC_WAIT_RESOLUTION_uS) (snd q))
      else Some (snd q))"

definition TRINAMIC_WAIT_FOR_STANDSTILL :: "int \<Rightarrow> tmc \<Rightarrow> tmc option" where
  "TRINAMIC_WAIT_FOR_STANDSTILL timeout s = WAIT_UNTIL timeout 0 s"

definition TMC2130_init :: "tmc \<Rightarrow> (bool \<times> tmc) option" where
  "TMC2130_init s =
     (let s1 = in_world (Com_printF ''TMC2130 initialization...'') s;
          s2 = in_world enableCls_off s1;
          s3 = driver_begin s2;
          s4 = snd (driver_test_connection s3);
          t = driver_test_connection s4
      in if fst t \<noteq> 0 then Some (False, in_world (Com_printFLN ''SPI error'') (snd t))
         else
           (let v = driver_version (snd t);
                s5 = in_world (Com_printFLN_value ''chip version '' (fst v)) (snd v)
            in case TRINAMIC_WAIT_FOR_STANDSTILL 100 s5 of
                 None \<Rightarrow> None
               | Some s6 \<Rightarrow>
                   (let s7 = driver_configure (I_scale_analog True) s6;
                        s8 = driver_configure (Interpolate False) s7;
                        s9 = driver_configure (Internal_Rsense False) s8;
                        s10 = driver_configure (Sgt 0) s9;
                        s11 = driver_configure (Diag1_stall True) s10
                    in Some (True, in_world enableCls_on s11))))"

definition TMC2130_implementSetMaxCurrent :: bool where
  "TMC2130_implementSetMaxCurrent = True"

definition TMC2130_setMicrosteps :: "16 word \<Rightarrow> tmc \<Rightarrow> tmc option" where
  "TMC2130_setMicrosteps microsteps s =
     (case TRINAMIC_WAIT_FOR_STANDSTILL 100 s of
        None \<Rightarrow> None
      | Some s1 \<Rightarrow> Some (driver_configure (Microsteps microsteps) s1))"

definition TMC2130_setMotorCurrent :: "16 word \<Rightarrow> tmc \<Rightarrow> tmc option" where
  "TMC2130_setMotorCurrent current s =
     (case TRINAMIC_WAIT_FOR_STANDSTILL 100 s of
        None \<Rightarrow> None
      | Some s1 \<Rightarrow> Some (driver_configure (Rms_current current) s1))"

definition set_backup :: "(RegisterBackup \<Rightarrow> RegisterBackup) \<Rightarrow> tmc \<Rightarrow> tmc" where
  "set_backup f s = ((fst s)\<lparr>backup := f (backup (fst s))\<rparr>, snd s)"

definition TMC2130_beforeHoming :: "tmc \<Rightarrow> tmc" where
  "TMC2130_beforeHoming s =
     (let g1 = driver_get GCONF s;
          s1 = set_backup (\<lambda>b. b\<lparr>b_GCONF := fst g1\<rparr>) (snd g1);
          g2 = driver_get CHOPCONF s1;
          s2 = set_backup (\<lambda>b. b\<lparr>b_CHOPCONF := fst g2\<rparr>) (snd g2);
          g3 = driver_get COOLCONF s2;
          s3 = set_backup (\<lambda>b. b\<lparr>b_COOLCONF := fst g3\<rparr>) (snd g3);
          g4 = driver_get PWMCONF s3;
          s4 = set_backup (\<lambda>b. b\<lparr>b_PWMCONF := fst g4\<rparr>) (snd g4);
          g5 = driver_get TCOOLTHRS s4;
          s5 = set_backup (\<lambda>b. b\<lparr>b_TCOOLTHRS := fst g5\<rparr>) (snd g5);
          g6 = driver_get TPWMTHRS s5
      in set_backup (\<lambda>b. b\<lparr>b_TPWMTHRS := fst g6\<rparr>) (snd g6))"

definition TMC2130_afterHoming :: "tmc \<Rightarrow> tmc" where
  "TMC2130_afterHoming s =
     (let s1 = driver_set GCONF (b_GCONF (backup (fst s))) s;
          s2 = driver_set CHOPCONF (b_CHOPCONF (backup (fst s1))) s1;
          s3 = driver_set COOLCONF (b_COOLCONF (backup (fst s2))) s2;
          s4 = driver_set PWMCONF (b_PWMCONF (backup (fst s3))) s3;
          s5 = driver_set TCOOLTHRS (b_TCOOLTHRS (backup (fst s4))) s4
      in driver_set TPWMTHRS (b_TPWMTHRS (backup (fst s5))) s5)"

subsection \<open>The polymorphic contract\<close>

text \<open>
  A driver is one of the two concrete classes; a call through the base class runs the
  override of the object's class, or the default of \<open>StepperDriverBase\<close> where the class
  has none. \<open>TMC2130StepperDriver\<close> overrides \<open>implementSetMaxCurrent\<close>,
  \<open>setMicrosteps\<close> and \<open>setMotorCurrent\<close>, and neither \<open>implementSetMicrosteps\<close> nor
  \<open>setMotorCurrentPercent\<close>.
\<close>

datatype stepper = Simple SimpleStepperDriver | TMC2130 TMC2130StepperDriver

definition as_Simple :: "SimpleStepperDriver \<times> world \<Rightarrow> stepper \<times> world" where
  "as_Simple s = (Simple (fst s), snd s)"

definition as_TMC2130 :: "tmc \<Rightarrow> stepper \<times> world" where
  "as_TMC2130 s = (TMC2130 (fst s), snd s)"

fun stepCond :: "stepper \<times> world \<Rightarrow> bool \<times> (stepper \<times> world)" where
  "stepCond (Simple d, w) = apsnd as_Simple (Simple_stepCond (d, w))"
| "stepCond (TMC2130 d, w) = apsnd as_TMC2130 (TMC2130_stepCond (d, w))"

fun dir :: "bool \<Rightarrow> stepper \<times> world \<Rightarrow> stepper \<times> world" where
  "dir b (Simple d, w) = as_Simple (Simple_dir b (d, w))"
| "dir b (TMC2130 d, w) = as_TMC2130 (TMC2130_dir b (d, w))"

fun init :: "stepper \<times> world \<Rightarrow> (bool \<times> (stepper \<times> world)) option" where
  "init (Simple d, w) = Some (apsnd as_Simple (StepperDriverBase_init (d, w)))"
| "init (TMC2130 d, w) = map_option (apsnd as_TMC2130) (TMC2130_init (d, w))"

fun implementSetMicrosteps :: "stepper \<Rightarrow> bool" where
  "implementSetMicrosteps (Simple d) = StepperDriverBase_implementSetMicrosteps"
| "implementSetMicrosteps (TMC2130 d) = StepperDriverBase_implementSetMicrosteps"

fun implementSetMaxCurrent :: "stepper \<Rightarrow> bool" where
  "implementSetMaxCurrent (Simple d) = StepperDriverBase_implementSetMaxCurrent"
| "implementSetMaxCurrent (TMC2130 d) = TMC2130_implementSetMaxCurrent"

fun setMicrosteps :: "16 word \<Rightarrow> stepper \<times> world \<Rightarrow> (stepper \<times> world) option" where
  "setMicrosteps n (Simple d, w) = Some (as_Simple (StepperDriverBase_setMicrosteps n (d, w)))"
| "setMicrosteps n (TMC2130 d, w) = map_option as_TMC2130 (TMC2130_setMicrosteps n (d, w))"

fun setMotorCurrent :: "16 word \<Rightarrow> stepper \<times> world \<Rightarrow> (stepper \<times> world) option" where
  "setMotorCurrent n (Simple d, w) = Some (as_Simple (StepperDriverBase_setMotorCurrent n (d, w)))"
| "setMotorCurrent n (TMC2130 d, w) = map_option as_TMC2130 (TMC2130_setMotorCurrent n (d, w))"

fun setMotorCurrentPercent :: "8 word \<Rightarrow> stepper \<times> world \<Rightarrow> (stepper \<times> world) option" where
  "setMotorCurrentPercent n (Simple d, w) =
     Some (as_Simple (StepperDriverBase_setMotorCurrentPercent n (d, w)))"
| "setMotorCurrentPercent n (TMC2130 d, w) =
     Some (as_TMC2130 (StepperDriverBase_setMotorCurrentPercent n (d, w)))"

fun beforeHoming :: "stepper \<times> world \<Rightarrow> stepper \<times> world" where
  "beforeHoming (Simple d, w) = as_Simple (StepperDriverBase_beforeHoming (d, w))"
| "beforeHoming (TMC2130 d, w) = as_TMC2130 (TMC2130_beforeHoming (d, w))"

fun afterHoming :: "stepper \<times> world \<Rightarrow> stepper \<times> world" where
  "afterHoming (Simple d, w) = as_Simple (StepperDriverBase_afterHoming (d, w))"
| "afterHoming (TMC2130 d, w) = as_TMC2130 (TMC2130_afterHoming (d, w))"

section \<open>Observations\<close>

text \<open>The base-class part of a driver, as the public members and getters give it.\<close>

fun get_direction :: "stepper \<Rightarrow> bool" where
  "get_direction (Simple d) = direction d"
| "get_direction (TMC2130 d) = direction d"

fun getMinEndstop :: "stepper \<Rightarrow> nat" where
  "getMinEndstop (Simple d) = minEndstop d"
| "getMinEndstop (TMC2130 d) = minEndstop d"

fun getMaxEndstop :: "stepper \<Rightarrow> nat" where
  "getMaxEndstop (Simple d) = maxEndstop d"
| "getMaxEndstop (TMC2130 d) = maxEndstop d"

text \<open>The events a call added to the trace, given the world before and after it.\<close>

definition added :: "world \<Rightarrow> world \<Rightarrow> event list" where
  "added w w' = drop (length (trace w)) (trace w')"

definition pulses :: "event list \<Rightarrow> nat" where
  "pulses es = length (filter (\<lambda>e. e = StepOn) es)"

fun is_poll :: "event \<Rightarrow> bool" where
  "is_poll (Polled p) = True"
| "is_poll e = False"

text \<open>
  A register write is a call that hands the chip a value: a register setter, a field
  setter, or the start-up sequence of \<open>begin()\<close>.
\<close>

fun is_write :: "event \<Rightarrow> bool" where
  "is_write (RegWrite r v) = True"
| "is_write (Configured x) = True"
| "is_write Begun = True"
| "is_write e = False"

text \<open>
  One pass of the wait loop's body after a test that continues: the query made by the
  test, then the delay. \<open>answer s k\<close> is what the chip will answer to the k-th standstill
  query from state \<open>s\<close> on.
\<close>

definition wait_pass :: "tmc \<Rightarrow> tmc" where
  "wait_pass s =
     in_world (HAL_delayMicroseconds TRINAMIC_WAIT_RESOLUTION_uS) (snd (driver_stst s))"

definition answer :: "tmc \<Rightarrow> nat \<Rightarrow> bool" where
  "answer s k = standstill (driver (fst s)) (queries (driver (fst s)) + k)"

text \<open>
  What may happen to the chip between the two homing hooks: register writes and field
  writes, in any number and order.
\<close>

datatype change = Write reg "32 word" | Configure setting

fun changes :: "change list \<Rightarrow> tmc \<Rightarrow> tmc" where
  "changes [] s = s"
| "changes (Write r v # cs) s = changes cs (driver_set r v s)"
| "changes (Configure x # cs) s = changes cs (driver_configure x s)"

subsection \<open>Sample states\<close>

text \<open>
  \<open>world_with t\<close> is a world in which the endstop at address \<open>t\<close> reports triggered at
  every poll and every other endstop never does; an axis whose min endstop is at address 0 and whose max
  endstop is at address 1; a chip that answers every standstill query with \<open>still\<close>,
  the second connectivity test with \<open>code\<close> and every other with 0.
\<close>

definition world_with :: "nat \<Rightarrow> world" where
  "world_with t =
     \<lparr>trace = [], stepPin = False, dirPin = False, enablePin = False,
      endstops = (\<lambda>p. \<lparr>signal = (\<lambda>k. p = t), polls = 0\<rparr>)\<rparr>"

definition quiet_world :: world where
  "quiet_world = world_with 1"

definition axis :: "bool \<Rightarrow> SimpleStepperDriver" where
  "axis d = \<lparr>minEndstop = 0, maxEndstop = 1, direction = d\<rparr>"

definition sample_regs :: "reg \<Rightarrow> 32 word" where
  "sample_regs r =
     (case r of GCONF \<Rightarrow> 1 | CHOPCONF \<Rightarrow> 2 | COOLCONF \<Rightarrow> 3
      | PWMCONF \<Rightarrow> 4 | TCOOLTHRS \<Rightarrow> 5 | TPWMTHRS \<Rightarrow> 6)"

definition sample_chip :: "bool \<Rightarrow> 8 word \<Rightarrow> TMC2130Stepper" where
  "sample_chip still code =
     \<lparr>regs = sample_regs, begin_effect = (\<lambda>f. f), setting_effect = (\<lambda>x f. f),
      connection = (\<lambda>k. if k = 1 then code else 0), tests = 0,
      standstill = (\<lambda>k. still), queries = 0, version_id = 17\<rparr>"

definition smart_axis :: "bool \<Rightarrow> bool \<Rightarrow> 8 word \<Rightarrow> TMC2130StepperDriver" where
  "smart_axis d still code =
     \<lparr>minEndstop = 0, maxEndstop = 1, direction = d, driver = sample_chip still code,
      backup = \<lparr>b_GCONF = 0, b_CHOPCONF = 0, b_COOLCONF = 0, b_PWMCONF = 0,
                b_TCOOLTHRS = 0, b_TPWMTHRS = 0\<rparr>\<rparr>"

section \<open>Basic facts\<close>

lemma emit_trace: "trace (emit e w) = trace w @ [e]"
  by (simp add: emit_def)

lemmas world_ops = emit_def stepCls_on_def stepCls_off_def dirCls_set_def enableCls_on_def
  enableCls_off_def Com_printF_def Com_printFLN_def Com_printFLN_value_def
  HAL_delayMicroseconds_def EndstopDriver_update_def in_world_def

lemmas chip_ops = chip_begin_def chip_test_connection_def chip_stst_def chip_get_def
  chip_set_def chip_configure_def driver_begin_def driver_test_connection_def
  driver_version_def driver_stst_def driver_get_def driver_set_def driver_configure_def

lemmas samples = world_with_def quiet_world_def axis_def sample_regs_def sample_chip_def
  smart_axis_def

section \<open>The endstop gate of stepCond\<close>

text \<open>
  Claim C1. For either driver class and any state of the endstops: with the direction
  flag set, \<open>stepCond()\<close> returns true and emits no step pulse when \<open>update()\<close> of the max
  endstop reports triggered, and returns false and emits exactly one pulse (one
  \<open>stepCls::on()\<close>) when it does not; with the flag clear the same holds of the min
  endstop.
\<close>

theorem stepCond_endstop_gate:
  "(get_direction d \<and> fst (EndstopDriver_update (getMaxEndstop d) w) \<longrightarrow>
      fst (stepCond (d, w)) \<and> pulses (added w (snd (snd (stepCond (d, w))))) = 0) \<and>
   (get_direction d \<and> \<not> fst (EndstopDriver_update (getMaxEndstop d) w) \<longrightarrow>
      \<not> fst (stepCond (d, w)) \<and> pulses (added w (snd (snd (stepCond (d, w))))) = 1) \<and>
   (\<not> get_direction d \<and> fst (EndstopDriver_update (getMinEndstop d) w) \<longrightarrow>
      fst (stepCond (d, w)) \<and> pulses (added w (snd (snd (stepCond (d, w))))) = 0) \<and>
   (\<not> get_direction d \<and> \<not> fst (EndstopDriver_update (getMinEndstop d) w) \<longrightarrow>
      \<not> fst (stepCond (d, w)) \<and> pulses (added w (snd (snd (stepCond (d, w))))) = 1)"
  by (cases d)
    (simp_all add: Simple_stepCond_def TMC2130_stepCond_def as_Simple_def as_TMC2130_def
      world_ops added_def pulses_def Let_def)

text \<open>
  The four cases at sample states: towards max with the max endstop triggered and not
  triggered (a plain driver), towards min with the min endstop triggered and not
  triggered (a TMC2130 driver).
\<close>

theorem stepCond_endstop_gate_witness:
  "(fst (stepCond (Simple (axis True), world_with 1)) \<and>
    pulses (added (world_with 1)
      (snd (snd (stepCond (Simple (axis True), world_with 1))))) = 0) \<and>
   (\<not> fst (stepCond (Simple (axis True), world_with 0)) \<and>
    pulses (added (world_with 0)
      (snd (snd (stepCond (Simple (axis True), world_with 0))))) = 1) \<and>
   (fst (stepCond (TMC2130 (smart_axis False True 0), world_with 0)) \<and>
    pulses (added (world_with 0)
      (snd (snd (stepCond (TMC2130 (smart_axis False True 0), world_with 0))))) = 0) \<and>
   (\<not> fst (stepCond (TMC2130 (smart_axis False True 0), world_with 1)) \<and>
    pulses (added (world_with 1)
      (snd (snd (stepCond (TMC2130 (smart_axis False True 0), world_with 1))))) = 1)"
  using stepCond_endstop_gate [of "Simple (axis True)" "world_with 1"]
    stepCond_endstop_gate [of "Simple (axis True)" "world_with 0"]
    stepCond_endstop_gate [of "TMC2130 (smart_axis False True 0)" "world_with 0"]
    stepCond_endstop_gate [of "TMC2130 (smart_axis False True 0)" "world_with 1"]
  by (simp add: axis_def smart_axis_def world_with_def EndstopDriver_update_def)

text \<open>
  Claim C8. One call of \<open>stepCond()\<close>, on either driver class, calls \<open>update()\<close> exactly
  once: the only poll recorded is of the endstop the direction selects, that endstop
  has been polled once more than before, and every endstop object at another address
  is as it was. (The opposite pointer is never dereferenced; if both pointers hold the
  same address, the one object they share is the one polled.)
\<close>

theorem stepCond_polls_once:
  "filter is_poll (added w (snd (snd (stepCond (d, w))))) =
     [Polled (if get_direction d then getMaxEndstop d else getMinEndstop d)] \<and>
   polls (endstops (snd (snd (stepCond (d, w))))
       (if get_direction d then getMaxEndstop d else getMinEndstop d)) =
     Suc (polls (endstops w (if get_direction d then getMaxEndstop d else getMinEndstop d))) \<and>
   (\<forall>p. p \<noteq> (if get_direction d then getMaxEndstop d else getMinEndstop d) \<longrightarrow>
      endstops (snd (snd (stepCond (d, w)))) p = endstops w p)"
  by (cases d)
    (simp_all add: Simple_stepCond_def TMC2130_stepCond_def as_Simple_def as_TMC2130_def
      world_ops added_def Let_def)

theorem stepCond_polls_once_witness:
  "filter is_poll (added quiet_world (snd (snd (stepCond (Simple (axis False), quiet_world))))) =
     [Polled 0] \<and>
   polls (endstops (snd (snd (stepCond (Simple (axis False), quiet_world)))) 0) = 1 \<and>
   endstops (snd (snd (stepCond (Simple (axis False), quiet_world)))) 1 =
     endstops quiet_world 1"
  using stepCond_polls_once [of quiet_world "Simple (axis False)"]
  by (simp add: samples)

section \<open>The direction flag\<close>

text \<open>
  Claim C6. For either driver class and either value \<open>b\<close>: after \<open>dir(b)\<close> the stored
  direction flag is \<open>b\<close>, and the next \<open>stepCond()\<close> returns what \<open>update()\<close> of the endstop
  selected by \<open>b\<close> reports (max for true, min for false) and polls that endstop and no
  other, whatever the flag was before.
\<close>

theorem dir_selects_endstop:
  "get_direction (fst (dir b (d, w))) = b \<and>
   fst (stepCond (dir b (d, w))) =
     fst (EndstopDriver_update (if b then getMaxEndstop d else getMinEndstop d)
       (snd (dir b (d, w)))) \<and>
   filter is_poll (added (snd (dir b (d, w))) (snd (snd (stepCond (dir b (d, w)))))) =
     [Polled (if b then getMaxEndstop d else getMinEndstop d)]"
  by (cases d)
    (simp_all add: Simple_stepCond_def TMC2130_stepCond_def Simple_dir_def TMC2130_dir_def
      as_Simple_def as_TMC2130_def world_ops added_def Let_def)

theorem dir_selects_endstop_witness:
  "get_direction (fst (dir False (TMC2130 (smart_axis True True 0), quiet_world))) = False \<and>
   fst (stepCond (dir False (TMC2130 (smart_axis True True 0), quiet_world))) = False \<and>
   filter is_poll
     (added (snd (dir False (TMC2130 (smart_axis True True 0), quiet_world)))
       (snd (snd (stepCond (dir False (TMC2130 (smart_axis True True 0), quiet_world)))))) =
     [Polled 0]"
  using dir_selects_endstop [of False "TMC2130 (smart_axis True True 0)" quiet_world]
  by (simp add: samples TMC2130_dir_def as_TMC2130_def world_ops)

section \<open>The standstill wait\<close>

text \<open>
  The loop leaves at the first test at which the chip reports standstill and the pass
  counter is not below the bound; until then every test costs one query and one delay
  (\<open>WAIT_UNTIL_leaves\<close>). If there is no such test the loop never leaves
  (\<open>WAIT_UNTIL_never_leaves\<close>); in particular it never leaves when the chip never
  reports standstill.
\<close>

lemma answer_wait_pass: "answer (wait_pass s) k = answer s (Suc k)"
  by (simp add: answer_def wait_pass_def driver_stst_def chip_stst_def in_world_def)

lemma fst_driver_stst: "fst (driver_stst s) = answer s 0"
  by (simp add: answer_def driver_stst_def chip_stst_def)

lemma WAIT_UNTIL_leaves:
  "(\<forall>j<k. \<not> answer s j \<or> uint (count + of_nat j) < timeout * 1000 div 100) \<Longrightarrow>
   answer s k \<Longrightarrow> \<not> uint (count + of_nat k) < timeout * 1000 div 100 \<Longrightarrow>
   WAIT_UNTIL timeout count s = Some (snd (driver_stst ((wait_pass ^^ k) s)))"
proof (induction k arbitrary: count s)
  case 0
  then show ?case
    by (subst WAIT_UNTIL.simps) (simp add: fst_driver_stst TRINAMIC_WAIT_RESOLUTION_uS_def)
next
  case (Suc k)
  have now: "\<not> answer s 0 \<or> uint count < timeout * 1000 div 100"
    using Suc.prems(1) [rule_format, of 0] by simp
  have later: "\<forall>j<k. \<not> answer (wait_pass s) j \<or> uint (count + 1 + of_nat j) < timeout * 1000 div 100"
  proof (intro allI impI)
    fix j assume "j < k"
    then have "\<not> answer s (Suc j) \<or> uint (count + of_nat (Suc j)) < timeout * 1000 div 100"
      using Suc.prems(1) [rule_format, of "Suc j"] by simp
    then show "\<not> answer (wait_pass s) j \<or> uint (count + 1 + of_nat j) < timeout * 1000 div 100"
      by (simp add: answer_wait_pass add.assoc)
  qed
  have "WAIT_UNTIL timeout count s = WAIT_UNTIL timeout (count + 1) (wait_pass s)"
    using now
    by (subst WAIT_UNTIL.simps) (simp add: fst_driver_stst TRINAMIC_WAIT_RESOLUTION_uS_def wait_pass_def)
  also have "\<dots> = Some (snd (driver_stst ((wait_pass ^^ k) (wait_pass s))))"
    using Suc.prems(2,3) by (intro Suc.IH later) (simp_all add: answer_wait_pass add.assoc)
  finally show ?case by (simp add: funpow_swap1)
qed

lemma WAIT_UNTIL_never_leaves:
  assumes never: "\<forall>k. \<not> answer s k \<or> uint (count + of_nat k) < timeout * 1000 div 100"
  shows "WAIT_UNTIL timeout count s = None"
proof (cases "WAIT_UNTIL timeout count s")
  case None
  then show ?thesis .
next
  case (Some r)
  have "\<exists>k. answer s k \<and> \<not> uint (count + of_nat k) < timeout * 1000 div 100"
  proof (rule WAIT_UNTIL.raw_induct
      [where P = "\<lambda>t c s r. \<exists>k. answer s k \<and> \<not> uint (c + of_nat k) < t * 1000 div 100"
        and timeout = timeout and count = count and s = s and y = r])
    fix W :: "int \<Rightarrow> 16 word \<Rightarrow> tmc \<Rightarrow> tmc option" and t c s' r'
    assume IH: "\<And>t c s r. W t c s = Some r \<Longrightarrow>
      \<exists>k. answer s k \<and> \<not> uint (c + of_nat k) < t * 1000 div 100"
    assume eq: "(let q = driver_stst s'
                 in if \<not> fst q \<or> uint c < t * 1000 div int TRINAMIC_WAIT_RESOLUTION_uS
                    then W t (c + 1)
                      (in_world (HAL_delayMicroseconds TRINAMIC_WAIT_RESOLUTION_uS) (snd q))
                    else Some (snd q)) = Some r'"
    show "\<exists>k. answer s' k \<and> \<not> uint (c + of_nat k) < t * 1000 div 100"
    proof (cases "\<not> answer s' 0 \<or> uint c < t * 1000 div 100")
      case False
      then have "answer s' 0 \<and> \<not> uint (c + of_nat 0) < t * 1000 div 100" by simp
      then show ?thesis by blast
    next
      case True
      with eq have "W t (c + 1) (wait_pass s') = Some r'"
        by (simp add: fst_driver_stst wait_pass_def TRINAMIC_WAIT_RESOLUTION_uS_def)
      from IH [OF this] obtain k
        where "answer (wait_pass s') k \<and> \<not> uint (c + 1 + of_nat k) < t * 1000 div 100" ..
      then have "answer s' (Suc k) \<and> \<not> uint (c + of_nat (Suc k)) < t * 1000 div 100"
        by (simp add: answer_wait_pass add.assoc)
      then show ?thesis by blast
    qed
  next
    show "WAIT_UNTIL timeout count s = Some r" by (rule Some)
  qed
  with never show ?thesis by blast
qed

lemma WAIT_UNTIL_forever:
  "\<forall>k. \<not> answer s k \<Longrightarrow> WAIT_UNTIL timeout count s = None"
  by (rule WAIT_UNTIL_never_leaves) simp

lemma count_below_budget: "j < 1000 \<Longrightarrow> uint (of_nat j :: 16 word) < 1000"
  by (simp add: uint_nat unat_of_nat)

lemma count_at_budget: "\<not> uint (of_nat 1000 :: 16 word) < 1000"
  by simp

lemma wait_at_standstill:
  assumes "\<forall>k. answer s k"
  shows "TRINAMIC_WAIT_FOR_STANDSTILL 100 s = Some (snd (driver_stst ((wait_pass ^^ 1000) s)))"
  unfolding TRINAMIC_WAIT_FOR_STANDSTILL_def
proof (rule WAIT_UNTIL_leaves)
  show "\<forall>j<1000. \<not> answer s j \<or> uint (0 + word_of_nat j :: 16 word) < 100 * 1000 div 100"
    using count_below_budget by simp
  show "answer s 1000" using assms by blast
  show "\<not> uint (0 + word_of_nat 1000 :: 16 word) < 100 * 1000 div 100" by simp
qed

lemma trace_wait_pass:
  "trace (snd (wait_pass s)) = trace (snd s) @ [AskedStst, Delayed TRINAMIC_WAIT_RESOLUTION_uS]"
  by (simp add: wait_pass_def chip_ops world_ops)

lemma trace_wait_passes:
  "trace (snd ((wait_pass ^^ k) s)) =
     trace (snd s) @ concat (replicate k [AskedStst, Delayed TRINAMIC_WAIT_RESOLUTION_uS])"
proof (induction k)
  case 0
  then show ?case by simp
next
  case (Suc k)
  have "concat (replicate k [AskedStst, Delayed TRINAMIC_WAIT_RESOLUTION_uS]) @
          [AskedStst, Delayed TRINAMIC_WAIT_RESOLUTION_uS] =
        concat (replicate (Suc k) [AskedStst, Delayed TRINAMIC_WAIT_RESOLUTION_uS])"
    by (induction k) simp_all
  with Suc show ?case by (simp add: trace_wait_pass)
qed

lemma pins_wait_passes: "enablePin (snd ((wait_pass ^^ k) s)) = enablePin (snd s)"
  by (induction k) (simp_all add: wait_pass_def chip_ops world_ops)

text \<open>
  Claim C3 says that the wait ends after at most \<open>timeout * 1000 / 100\<close> passes for every
  sequence of answers of the standstill predicate, also one that is never true. The
  loop test \<open>!condition || count < limit\<close> holds at every pass at which the condition is
  false, so the source does otherwise: on a chip that never reports standstill the
  wait never returns, whatever the timeout.
\<close>

theorem standstill_wait_never_returns:
  "\<forall>k. \<not> answer s k \<Longrightarrow> TRINAMIC_WAIT_FOR_STANDSTILL timeout s = None"
  by (simp add: TRINAMIC_WAIT_FOR_STANDSTILL_def WAIT_UNTIL_forever)

theorem standstill_wait_never_returns_witness:
  "TRINAMIC_WAIT_FOR_STANDSTILL 100 (smart_axis True False 0, quiet_world) = None"
  using standstill_wait_never_returns [of "(smart_axis True False 0, quiet_world)" 100]
  by (simp add: answer_def samples)

section \<open>Initialisation of the TMC2130 driver\<close>

text \<open>
  The code that the second connectivity test of \<open>init()\<close> returns, in terms of the state
  \<open>init()\<close> starts from: the answer with index \<open>tests + 1\<close>.
\<close>

lemma second_test_result:
  "fst (driver_test_connection (snd (driver_test_connection (driver_begin
      (in_world enableCls_off (in_world (Com_printF msg) s)))))) =
   connection (driver (fst s)) (Suc (tests (driver (fst s))))"
  by (simp add: chip_ops in_world_def split_beta)

text \<open>
  The outcome of \<open>init()\<close> is decided by the second test alone: it returns false exactly
  when that test answers a nonzero code, whatever the first one answered.
\<close>

lemma init_false_iff:
  "(\<exists>s'. TMC2130_init s = Some (False, s')) \<longleftrightarrow>
     connection (driver (fst s)) (Suc (tests (driver (fst s)))) \<noteq> 0"
  by (auto simp add: TMC2130_init_def Let_def chip_ops in_world_def split_beta
      split: option.splits)

text \<open>
  On a chip that passes the second test and reports standstill at every query,
  \<open>init()\<close> reports the version, waits its 1000 passes, makes the five configuration
  writes in the source's order, enables the output stage and returns true.
\<close>

lemma init_at_standstill:
  assumes "connection (driver (fst s)) (Suc (tests (driver (fst s)))) = 0"
    and "\<forall>k. answer s k"
  shows "\<exists>s'. TMC2130_init s = Some (True, s') \<and> enablePin (snd s') \<and>
           added (snd s) (snd s') =
             [Printed ''TMC2130 initialization...'', EnableOff, Begun, TestedConnection,
              TestedConnection, AskedVersion,
              PrintedValue ''chip version '' (version_id (driver (fst s)))] @
             concat (replicate 1000 [AskedStst, Delayed TRINAMIC_WAIT_RESOLUTION_uS]) @
             [AskedStst, Configured (I_scale_analog True), Configured (Interpolate False),
              Configured (Internal_Rsense False), Configured (Sgt 0),
              Configured (Diag1_stall True), EnableOn]"
proof -
  let ?s3 = "driver_begin (in_world enableCls_off
     (in_world (Com_printF ''TMC2130 initialization...'') s))"
  let ?t = "driver_test_connection (snd (driver_test_connection ?s3))"
  let ?v = "driver_version (snd ?t)"
  let ?s5 = "in_world (Com_printFLN_value ''chip version '' (fst ?v)) (snd ?v)"
  have "answer ?s5 k = answer s k" for k
    by (simp add: answer_def chip_ops in_world_def split_beta)
  with assms(2) have "\<forall>k. answer ?s5 k" by simp
  from wait_at_standstill [OF this]
  have wait: "TRINAMIC_WAIT_FOR_STANDSTILL 100 ?s5 =
      Some (snd (driver_stst ((wait_pass ^^ 1000) ?s5)))" .
  have test: "fst ?t = 0"
    using assms(1) by (simp add: chip_ops in_world_def split_beta)
  have before: "trace (snd ?s5) = trace (snd s) @
      [Printed ''TMC2130 initialization...'', EnableOff, Begun, TestedConnection,
       TestedConnection, AskedVersion,
       PrintedValue ''chip version '' (version_id (driver (fst s)))]"
    by (simp add: chip_ops world_ops split_beta)
  show ?thesis
    using wait test before
    by (simp add: TMC2130_init_def Let_def added_def trace_wait_passes driver_configure_def
        driver_stst_def chip_stst_def emit_def enableCls_on_def in_world_def split_beta)
qed

text \<open>
  Claim C5 says that \<open>init()\<close> returns true and leaves the output stage enabled whenever
  the second connectivity test succeeds. The standstill wait stands between the test
  and the configuration writes: on a chip that passes the test and never reports
  standstill, \<open>init()\<close> does not return at all.
\<close>

theorem init_never_returns_when_moving:
  assumes "connection (driver (fst s)) (Suc (tests (driver (fst s)))) = 0"
    and "\<forall>k. \<not> answer s k"
  shows "TMC2130_init s = None"
proof -
  let ?s3 = "driver_begin (in_world enableCls_off
     (in_world (Com_printF ''TMC2130 initialization...'') s))"
  let ?t = "driver_test_connection (snd (driver_test_connection ?s3))"
  let ?v = "driver_version (snd ?t)"
  let ?s5 = "in_world (Com_printFLN_value ''chip version '' (fst ?v)) (snd ?v)"
  have "answer ?s5 k = answer s k" for k
    by (simp add: answer_def chip_ops in_world_def split_beta)
  with assms(2) have "WAIT_UNTIL 100 0 ?s5 = None"
    by (intro WAIT_UNTIL_forever) simp
  moreover have "fst ?t = 0"
    using assms(1) by (simp add: chip_ops in_world_def split_beta)
  ultimately show ?thesis
    by (simp add: TMC2130_init_def Let_def TRINAMIC_WAIT_FOR_STANDSTILL_def)
qed

theorem init_never_returns_when_moving_witness:
  "TMC2130_init (smart_axis True False 0, quiet_world) = None"
  using init_never_returns_when_moving [of "(smart_axis True False 0, quiet_world)"]
  by (simp add: answer_def samples)

text \<open>
  Claim C9. When the second connectivity test answers a nonzero code, \<open>init()\<close> returns
  false with the enable output deasserted; all it has done is print the banner, switch
  the output stage off, call \<open>begin()\<close>, run the two tests and print the SPI error. The
  output stage is not switched on again, the standstill wait is not entered (no query,
  no delay) and no configuration write is made.
\<close>

theorem init_failure:
  assumes "connection (driver (fst s)) (Suc (tests (driver (fst s)))) \<noteq> 0"
  shows "\<exists>s'. TMC2130_init s = Some (False, s') \<and>
           \<not> enablePin (snd s') \<and>
           added (snd s) (snd s') =
             [Printed ''TMC2130 initialization...'', EnableOff, Begun, TestedConnection,
              TestedConnection, PrintedLn ''SPI error''] \<and>
           EnableOn \<notin> set (added (snd s) (snd s')) \<and>
           AskedStst \<notin> set (added (snd s) (snd s')) \<and>
           Delayed TRINAMIC_WAIT_RESOLUTION_uS \<notin> set (added (snd s) (snd s')) \<and>
           (\<forall>x. Configured x \<notin> set (added (snd s) (snd s')))"
  using assms
  by (simp add: TMC2130_init_def Let_def chip_ops world_ops added_def)

text \<open>A chip whose first test answers 0 and whose second answers 1.\<close>

theorem init_failure_witness:
  "\<exists>s'. TMC2130_init (smart_axis True True 1, quiet_world) = Some (False, s') \<and>
           \<not> enablePin (snd s') \<and>
           trace (snd s') =
             [Printed ''TMC2130 initialization...'', EnableOff, Begun, TestedConnection,
              TestedConnection, PrintedLn ''SPI error'']"
  using init_failure [of "(smart_axis True True 1, quiet_world)"]
  by (fastforce simp add: samples added_def)

section \<open>The runtime setters\<close>

lemma no_write_in_passes:
  "filter is_write (concat (replicate k [AskedStst, Delayed TRINAMIC_WAIT_RESOLUTION_uS])) = []"
  by (induction k) simp_all

text \<open>
  What the runtime setters do on a chip that reports standstill at every query: the
  wait makes its 1000 passes and one last query, then the one write follows.
\<close>

lemma setMicrosteps_at_standstill:
  assumes "\<forall>k. answer s k"
  shows "\<exists>s'. TMC2130_setMicrosteps n s = Some s' \<and>
           added (snd s) (snd s') =
             concat (replicate 1000 [AskedStst, Delayed TRINAMIC_WAIT_RESOLUTION_uS]) @
             [AskedStst, Configured (Microsteps n)]"
  using wait_at_standstill [OF assms]
  by (simp add: TMC2130_setMicrosteps_def added_def driver_configure_def driver_stst_def
      chip_stst_def emit_def trace_wait_passes split_beta)

lemma setMotorCurrent_at_standstill:
  assumes "\<forall>k. answer s k"
  shows "\<exists>s'. TMC2130_setMotorCurrent raw s = Some s' \<and>
           added (snd s) (snd s') =
             concat (replicate 1000 [AskedStst, Delayed TRINAMIC_WAIT_RESOLUTION_uS]) @
             [AskedStst, Configured (Rms_current raw)]"
  using wait_at_standstill [OF assms]
  by (simp add: TMC2130_setMotorCurrent_def added_def driver_configure_def driver_stst_def
      chip_stst_def emit_def trace_wait_passes split_beta)

lemma TMC2130_implements_max_current: "implementSetMaxCurrent (TMC2130 d)"
  by (simp add: TMC2130_implementSetMaxCurrent_def)

text \<open>On the plain driver no capability is announced and every setter leaves all as it is.\<close>

lemma Simple_setters_are_no_ops:
  "\<not> implementSetMicrosteps (Simple d) \<and> \<not> implementSetMaxCurrent (Simple d) \<and>
   setMicrosteps n (Simple d, w) = Some (Simple d, w) \<and>
   setMotorCurrent n (Simple d, w) = Some (Simple d, w) \<and>
   setMotorCurrentPercent p (Simple d, w) = Some (Simple d, w)"
  by (simp add: StepperDriverBase_implementSetMicrosteps_def
      StepperDriverBase_implementSetMaxCurrent_def StepperDriverBase_setMicrosteps_def
      StepperDriverBase_setMotorCurrent_def StepperDriverBase_setMotorCurrentPercent_def
      as_Simple_def)

text \<open>
  Claim C4 says that a setter whose capability query returns false does nothing. On
  the TMC2130 driver \<open>implementSetMicrosteps()\<close> is the inherited default and returns
  false, while \<open>setMicrosteps\<close> is overridden: with the chip at standstill,
  \<open>setMicrosteps(16)\<close> returns after its wait having made one register write, the
  microstep setting 16.
\<close>

theorem setMicrosteps_without_capability:
  assumes "\<forall>k. answer (d, w) k"
  shows "\<not> implementSetMicrosteps (TMC2130 d) \<and>
         (\<exists>s'. setMicrosteps 16 (TMC2130 d, w) = Some s' \<and>
            filter is_write (added w (snd s')) = [Configured (Microsteps 16)])"
proof -
  have "filter is_write (concat (replicate k [AskedStst, Delayed TRINAMIC_WAIT_RESOLUTION_uS])) = []" for k
    by (induction k) simp_all
  then show ?thesis
    using wait_at_standstill [OF assms]
    by (simp add: StepperDriverBase_implementSetMicrosteps_def TMC2130_setMicrosteps_def
        as_TMC2130_def added_def driver_configure_def driver_stst_def chip_stst_def emit_def
        trace_wait_passes split_beta)
qed

theorem setMicrosteps_without_capability_witness:
  "\<not> implementSetMicrosteps (TMC2130 (smart_axis True True 0)) \<and>
   (\<exists>s'. setMicrosteps 16 (TMC2130 (smart_axis True True 0), quiet_world) = Some s' \<and>
      filter is_write (trace (snd s')) = [Configured (Microsteps 16)])"
  using setMicrosteps_without_capability [of "smart_axis True True 0" quiet_world]
  by (fastforce simp add: answer_def samples added_def)

text \<open>
  Claim C7 says that \<open>setMicrosteps(n)\<close> and \<open>setMotorCurrent(raw)\<close> wait for standstill
  and then make their one write. On a chip that never reports standstill the wait does
  not end, so neither setter returns and neither write is made. (With the chip at
  standstill both do as the claim says: \<open>setMicrosteps_at_standstill\<close>,
  \<open>setMotorCurrent_at_standstill\<close>.)
\<close>

theorem setters_never_write_when_moving:
  "\<forall>k. \<not> answer s k \<Longrightarrow>
     TMC2130_setMicrosteps n s = None \<and> TMC2130_setMotorCurrent raw s = None"
  by (simp add: TMC2130_setMicrosteps_def TMC2130_setMotorCurrent_def
      TRINAMIC_WAIT_FOR_STANDSTILL_def WAIT_UNTIL_forever)

theorem setters_never_write_when_moving_witness:
  "TMC2130_setMicrosteps 16 (smart_axis True False 0, quiet_world) = None \<and>
   TMC2130_setMotorCurrent 800 (smart_axis True False 0, quiet_world) = None"
  using setters_never_write_when_moving [of "(smart_axis True False 0, quiet_world)" 16 800]
  by (simp add: answer_def samples)

section \<open>The homing bracket\<close>

lemma changes_backup: "backup (fst (changes cs s)) = backup (fst s)"
  by (induction cs s rule: changes.induct) (simp_all add: driver_set_def driver_configure_def)

lemma beforeHoming_backup:
  "backup (fst (TMC2130_beforeHoming s)) =
     \<lparr>b_GCONF = regs (driver (fst s)) GCONF, b_CHOPCONF = regs (driver (fst s)) CHOPCONF,
      b_COOLCONF = regs (driver (fst s)) COOLCONF, b_PWMCONF = regs (driver (fst s)) PWMCONF,
      b_TCOOLTHRS = regs (driver (fst s)) TCOOLTHRS, b_TPWMTHRS = regs (driver (fst s)) TPWMTHRS\<rparr>"
  by (simp add: TMC2130_beforeHoming_def Let_def set_backup_def driver_get_def chip_get_def
      in_world_def)

lemma afterHoming_regs:
  "regs (driver (fst (TMC2130_afterHoming s))) r =
     (case r of GCONF \<Rightarrow> b_GCONF (backup (fst s)) | CHOPCONF \<Rightarrow> b_CHOPCONF (backup (fst s))
      | COOLCONF \<Rightarrow> b_COOLCONF (backup (fst s)) | PWMCONF \<Rightarrow> b_PWMCONF (backup (fst s))
      | TCOOLTHRS \<Rightarrow> b_TCOOLTHRS (backup (fst s)) | TPWMTHRS \<Rightarrow> b_TPWMTHRS (backup (fst s)))"
  by (cases r) (simp_all add: TMC2130_afterHoming_def Let_def driver_set_def chip_set_def)

text \<open>
  Claim C2. Round trip of the homing bracket: from any state of the six registers,
  \<open>beforeHoming()\<close>, then any sequence of register and field writes, then
  \<open>afterHoming()\<close> leaves each of the six registers with the value it had before
  \<open>beforeHoming()\<close>.
\<close>

theorem homing_round_trip:
  "regs (driver (fst (TMC2130_afterHoming (changes cs (TMC2130_beforeHoming s))))) =
     regs (driver (fst s))"
proof
  fix r
  show "regs (driver (fst (TMC2130_afterHoming (changes cs (TMC2130_beforeHoming s))))) r =
     regs (driver (fst s)) r"
    by (cases r) (simp_all add: afterHoming_regs changes_backup beforeHoming_backup)
qed

text \<open>
  The scenario of the specification: the hook captures the values 1 to 6, every one of
  the six registers is then overwritten (and the microstep field written), and the
  closing hook puts the six captured values back.
\<close>

theorem homing_round_trip_witness:
  "regs (driver (fst (TMC2130_afterHoming
     (changes [Write GCONF 16, Write CHOPCONF 32, Write COOLCONF 48, Write PWMCONF 64,
               Write TCOOLTHRS 80, Write TPWMTHRS 96, Configure (Microsteps 16)]
       (TMC2130_beforeHoming (smart_axis True True 0, quiet_world)))))) = sample_regs \<and>
   regs (driver (fst
     (changes [Write GCONF 16, Write CHOPCONF 32, Write COOLCONF 48, Write PWMCONF 64,
               Write TCOOLTHRS 80, Write TPWMTHRS 96, Configure (Microsteps 16)]
       (TMC2130_beforeHoming (smart_axis True True 0, quiet_world))))) GCONF = 16"
  using homing_round_trip [of "[Write GCONF 16, Write CHOPCONF 32, Write COOLCONF 48,
      Write PWMCONF 64, Write TCOOLTHRS 80, Write TPWMTHRS 96, Configure (Microsteps 16)]"
      "(smart_axis True True 0, quiet_world)"]
  by (simp add: samples TMC2130_beforeHoming_def Let_def set_backup_def chip_ops in_world_def)

text \<open>
  Claim C10. \<open>beforeHoming()\<close> leaves the chip handle, and so the register file, as it
  was: it makes the six reads and no write. \<open>afterHoming()\<close> leaves the backup record
  as it was and writes its six values, so a second \<open>afterHoming()\<close> makes the same six
  writes as the first.
\<close>

theorem homing_hooks_frame:
  "driver (fst (TMC2130_beforeHoming s)) = driver (fst s) \<and>
   added (snd s) (snd (TMC2130_beforeHoming s)) =
     [RegRead GCONF, RegRead CHOPCONF, RegRead COOLCONF, RegRead PWMCONF,
      RegRead TCOOLTHRS, RegRead TPWMTHRS] \<and>
   filter is_write (added (snd s) (snd (TMC2130_beforeHoming s))) = [] \<and>
   backup (fst (TMC2130_afterHoming s)) = backup (fst s) \<and>
   added (snd s) (snd (TMC2130_afterHoming s)) =
     [RegWrite GCONF (b_GCONF (backup (fst s))), RegWrite CHOPCONF (b_CHOPCONF (backup (fst s))),
      RegWrite COOLCONF (b_COOLCONF (backup (fst s))), RegWrite PWMCONF (b_PWMCONF (backup (fst s))),
      RegWrite TCOOLTHRS (b_TCOOLTHRS (backup (fst s))),
      RegWrite TPWMTHRS (b_TPWMTHRS (backup (fst s)))] \<and>
   added (snd (TMC2130_afterHoming s)) (snd (TMC2130_afterHoming (TMC2130_afterHoming s))) =
     added (snd s) (snd (TMC2130_afterHoming s))"
  by (simp add: TMC2130_beforeHoming_def TMC2130_afterHoming_def Let_def set_backup_def
      driver_get_def driver_set_def chip_get_def chip_set_def in_world_def emit_def added_def)

theorem homing_hooks_frame_witness:
  "added (snd (TMC2130_afterHoming (TMC2130_beforeHoming (smart_axis True True 0, quiet_world))))
     (snd (TMC2130_afterHoming (TMC2130_afterHoming
        (TMC2130_beforeHoming (smart_axis True True 0, quiet_world))))) =
     [RegWrite GCONF 1, RegWrite CHOPCONF 2, RegWrite COOLCONF 3, RegWrite PWMCONF 4,
      RegWrite TCOOLTHRS 5, RegWrite TPWMTHRS 6]"
  using homing_hooks_frame
      [of "TMC2130_afterHoming (TMC2130_beforeHoming (smart_axis True True 0, quiet_world))"]
    homing_hooks_frame [of "TMC2130_beforeHoming (smart_axis True True 0, quiet_world)"]
  by (simp add: beforeHoming_backup) (simp add: samples)

end
